theory Spec2Isabelle
  imports Main "HOL-Library.Sublist"
begin

section \<open>Paths\<close>

text \<open>
  The program passes paths around as strings and joins them by concatenation. The file
  system is keyed by the list of the names on a path: \<open>/srv//prov/\<close> and \<open>/srv/prov\<close> name the
  same node. The names \<open>.\<close> and \<open>..\<close> are not interpreted and there are no symbolic links.
\<close>

type_synonym path = "string list"

fun split_slash :: "string \<Rightarrow> string list" where
  "split_slash [] = [[]]"
| "split_slash (c # cs) =
     (if c = CHR ''/'' then [] # split_slash cs
      else (case split_slash cs of [] \<Rightarrow> [[c]] | x # xs \<Rightarrow> (c # x) # xs))"

definition components :: "string \<Rightarrow> path" where
  "components s = filter (\<lambda>x. x \<noteq> []) (split_slash s)"


text \<open>\<^verbatim>\<open>os.path.isabs\<close>: the string starts with a slash.\<close>

definition isabs :: "string \<Rightarrow> bool" where
  "isabs s = (case s of [] \<Rightarrow> False | c # _ \<Rightarrow> c = CHR ''/'')"

text \<open>\<^verbatim>\<open>os.path.join(a, b)\<close> of \<^verbatim>\<open>posixpath\<close>.\<close>

definition path_join :: "string \<Rightarrow> string \<Rightarrow> string" where
  "path_join a b =
     (if isabs b then b
      else if a = [] \<or> last a = CHR ''/'' then a @ b
      else a @ ''/'' @ b)"

section \<open>The world the plugin runs in\<close>

datatype node = Dir | File string

text \<open>
  The exceptions that can leave the plugin: \<open>OSError\<close> from the \<^verbatim>\<open>os\<close> and \<^verbatim>\<open>shutil\<close> calls,
  \<open>IOError\<close> from \<^verbatim>\<open>open\<close> (its own class in Python 2, a name of \<open>OSError\<close> in Python 3),
  \<open>TypeError\<close> from an operation on \<^verbatim>\<open>None\<close>, \<open>ShutilError\<close> for \<^verbatim>\<open>shutil.Error\<close>. A \<open>KeyError\<close>
  is raised only by \<^verbatim>\<open>os.environ['VAULT_PWD']\<close>, where the plugin catches it.
\<close>

datatype exn = OSError | IOError | KeyError | TypeError | ShutilError

datatype level = DEBUG | INFO | ERROR | CRITICAL

datatype 'a outcome = Returned 'a | Raised exn

text \<open>The dictionary that \<^verbatim>\<open>_store_package_metadata\<close> builds.\<close>

record metadata =
  md_name :: string
  md_version :: string
  md_release :: string
  md_extra_vars :: string

text \<open>
  \<open>fs\<close> is the host's file system. \<open>proc_root\<close> is the directory the process has as its
  root (the empty path before the caller's chroot, the mount point inside it) and
  \<open>proc_cwd\<close> its working directory below that root. \<open>open_files\<close> holds the files opened
  and not yet closed. The \<open>pkg\<close> fields are \<^verbatim>\<open>context.package\<close>.
\<close>

record world =
  fs :: "path \<rightharpoonup> node"
  proc_root :: path
  proc_cwd :: path
  environ :: "string \<rightharpoonup> string"
  open_files :: "path list"
  pkg_arg :: string
  pkg_inventory :: "string option"
  pkg_attributes :: "metadata option"
  logged :: "(level \<times> string) list"

text \<open>
  The plugin's configuration, \<^verbatim>\<open>self._config.plugins[self.full_name]\<close>. Every key is read
  with \<^verbatim>\<open>config.get\<close>, which gives \<^verbatim>\<open>None\<close> for a key that is not set.
\<close>

record config =
  extravars :: "string option"
  appversion :: "string option"
  playbooks_path_source :: "string option"
  playbooks_path_dest :: "string option"
  vault_password :: "bool option"
  keep_playbooks :: "bool option"
  inventory_file_path :: "string option"
  inventory_file :: "string option"
  inventory_file_content :: "string option"

text \<open>\<open>mountpoint\<close> is \<^verbatim>\<open>self._distro._mountpoint\<close>.\<close>

record plugin =
  config :: config
  mountpoint :: string

text \<open>Python's truth value of a flag that may be \<^verbatim>\<open>None\<close>.\<close>

definition truthy :: "bool option \<Rightarrow> bool" where
  "truthy b = (b = Some True)"

text \<open>\<^verbatim>\<open>config.get(key, default)\<close>.\<close>

definition get_default :: "'a option \<Rightarrow> 'a \<Rightarrow> 'a" where
  "get_default v d = (case v of None \<Rightarrow> d | Some x \<Rightarrow> x)"

definition logmsg :: "level \<Rightarrow> string \<Rightarrow> world \<Rightarrow> world" where
  "logmsg l m w = w\<lparr>logged := logged w @ [(l, m)]\<rparr>"

text \<open>Sequencing: an exception of the first step ends the run with the state it left.\<close>

definition and_then ::
  "'a outcome \<times> world \<Rightarrow> ('a \<Rightarrow> world \<Rightarrow> 'b outcome \<times> world) \<Rightarrow> 'b outcome \<times> world" where
  "and_then r k = (case r of (Raised e, w) \<Rightarrow> (Raised e, w) | (Returned x, w) \<Rightarrow> k x w)"

section \<open>The operating system calls the plugin makes\<close>

text \<open>
  A path string names a node below the process's root; a relative one starts at the
  working directory. The empty string names nothing.
\<close>

definition resolve :: "world \<Rightarrow> string \<Rightarrow> path option" where
  "resolve w s =
     (if s = [] then None
      else Some (proc_root w @ (if isabs s then components s else proc_cwd w @ components s)))"

text \<open>\<^verbatim>\<open>os.path.isdir\<close>.\<close>

definition isdir :: "world \<Rightarrow> string \<Rightarrow> bool" where
  "isdir w s = (case resolve w s of None \<Rightarrow> False | Some p \<Rightarrow> fs w p = Some Dir)"

definition is_file :: "node option \<Rightarrow> bool" where
  "is_file n = (case n of Some (File _) \<Rightarrow> True | _ \<Rightarrow> False)"

text \<open>
  \<^verbatim>\<open>os.makedirs\<close>: fails when the path exists or when a file is in the way, and otherwise
  creates the directory and every missing ancestor.
\<close>

definition makedirs :: "world \<Rightarrow> string \<Rightarrow> unit outcome \<times> world" where
  "makedirs w s =
     (case resolve w s of
        None \<Rightarrow> (Raised OSError, w)
      | Some p \<Rightarrow>
          if fs w p \<noteq> None then (Raised OSError, w)
          else if list_ex (\<lambda>q. is_file (fs w q)) (prefixes p) then (Raised OSError, w)
          else (Returned (),
                w\<lparr>fs := (\<lambda>q. if prefix q p \<and> fs w q = None then Some Dir else fs w q)\<rparr>))"

text \<open>
  \<^verbatim>\<open>shutil.copytree(src, dst)\<close>: lists \<open>src\<close> (which fails unless it is a directory), makes
  \<open>dst\<close> with \<^verbatim>\<open>os.makedirs\<close> (which fails when \<open>dst\<close> exists), and copies the tree below
  \<open>src\<close> as it was listed. When \<open>dst\<close> lies below a subdirectory of \<open>src\<close> that already exists,
  the real function descends into its own output until a path is too long and raises
  \<^verbatim>\<open>shutil.Error\<close>; that case is an exception here and the state it leaves is only the
  directories made so far.
\<close>

definition copytree :: "world \<Rightarrow> string \<Rightarrow> string \<Rightarrow> unit outcome \<times> world" where
  "copytree w src dst =
     (case resolve w src of
        None \<Rightarrow> (Raised OSError, w)
      | Some ps \<Rightarrow>
          if fs w ps \<noteq> Some Dir then (Raised OSError, w)
          else and_then (makedirs w dst) (\<lambda>_ w1.
            (case resolve w dst of
               None \<Rightarrow> (Raised OSError, w1)
             | Some pd \<Rightarrow>
                 if strict_prefix ps pd \<and> fs w (take (Suc (length ps)) pd) = Some Dir
                 then (Raised ShutilError, w1)
                 else (Returned (),
                       w1\<lparr>fs := (\<lambda>q. if prefix pd q then fs w (ps @ drop (length pd) q)
                                      else fs w1 q)\<rparr>))))"

text \<open>
  \<^verbatim>\<open>shutil.rmtree(path)\<close> with its default error handling: raises unless the path is a
  directory, and removes the directory with everything below it. The root directory of
  the process cannot be removed: its contents go, it stays, and the call raises.
\<close>

definition rmtree :: "world \<Rightarrow> string \<Rightarrow> unit outcome \<times> world" where
  "rmtree w s =
     (case resolve w s of
        None \<Rightarrow> (Raised OSError, w)
      | Some p \<Rightarrow>
          if fs w p \<noteq> Some Dir then (Raised OSError, w)
          else if p = proc_root w
          then (Raised OSError, w\<lparr>fs := (\<lambda>q. if strict_prefix p q then None else fs w q)\<rparr>)
          else (Returned (), w\<lparr>fs := (\<lambda>q. if prefix p q then None else fs w q)\<rparr>))"

text \<open>\<^verbatim>\<open>os.remove\<close>: removes a file, and raises when the path is missing or a directory.\<close>

definition os_remove :: "world \<Rightarrow> string \<Rightarrow> unit outcome \<times> world" where
  "os_remove w s =
     (case resolve w s of
        None \<Rightarrow> (Raised OSError, w)
      | Some p \<Rightarrow>
          if is_file (fs w p) then (Returned (), w\<lparr>fs := (fs w)(p := None)\<rparr>)
          else (Raised OSError, w))"

text \<open>
  \<^verbatim>\<open>open(path, 'w')\<close>: creates the file or empties it, and raises when the path is a
  directory or its parent is not one. The handle returned is the path.
\<close>

definition open_w :: "world \<Rightarrow> string \<Rightarrow> path outcome \<times> world" where
  "open_w w s =
     (case resolve w s of
        None \<Rightarrow> (Raised IOError, w)
      | Some p \<Rightarrow>
          if fs w p = Some Dir \<or> fs w (butlast p) \<noteq> Some Dir then (Raised IOError, w)
          else (Returned p, w\<lparr>fs := (fs w)(p \<mapsto> File []), open_files := p # open_files w\<rparr>))"

text \<open>\<^verbatim>\<open>f.write(data)\<close>, and \<^verbatim>\<open>f.writelines(data)\<close> with a string for \<open>data\<close>.\<close>

definition file_write :: "path \<Rightarrow> string \<Rightarrow> world \<Rightarrow> world" where
  "file_write f data w =
     (case fs w f of
        Some (File c) \<Rightarrow> w\<lparr>fs := (fs w)(f \<mapsto> File (c @ data))\<rparr>
      | _ \<Rightarrow> w)"

definition file_close :: "path \<Rightarrow> world \<Rightarrow> world" where
  "file_close f w = w\<lparr>open_files := remove1 f (open_files w)\<rparr>"

section \<open>The plugin\<close>

text \<open>\<^verbatim>\<open>_write_local_inventory\<close>.\<close>

definition write_local_inventory :: "plugin \<Rightarrow> world \<Rightarrow> bool outcome \<times> world" where
  "write_local_inventory self w =
     (let path = get_default (inventory_file_path (config self)) ''/etc/ansible''
      in case inventory_file (config self) of
           None \<Rightarrow> (Raised TypeError, w)
         | Some name \<Rightarrow>
             let filename = path @ ''/'' @ name;
                 w1 = w\<lparr>pkg_inventory := Some filename\<rparr>
             in and_then
                  (if \<not> isdir w1 path
                   then and_then (makedirs (logmsg DEBUG (''creating '' @ path) w1) path)
                          (\<lambda>_ w2. (Returned (), logmsg DEBUG (''created '' @ path) w2))
                   else (Returned (), w1))
                  (\<lambda>_ w3. and_then (open_w w3 filename) (\<lambda>f w4.
                     let w5 = logmsg DEBUG (''writing '' @ filename) w4
                     in case inventory_file_content (config self) of
                          None \<Rightarrow> (Raised TypeError, file_close f w5)
                        | Some content \<Rightarrow>
                            (Returned True,
                             file_close f
                               (logmsg DEBUG (''wrote '' @ filename) (file_write f content w5))))))"

text \<open>\<^verbatim>\<open>_copy_playbooks\<close>.\<close>

definition copy_playbooks :: "plugin \<Rightarrow> world \<Rightarrow> bool outcome \<times> world" where
  "copy_playbooks self w =
     (case playbooks_path_dest (config self) of
        None \<Rightarrow> (Raised TypeError, w)
      | Some d \<Rightarrow>
          let path_dest = mountpoint self @ d
          in case playbooks_path_source (config self) of
               None \<Rightarrow> (Raised TypeError, w)
             | Some path_source \<Rightarrow>
                 let w1 = (if \<not> isdir w path_source
                           then logmsg CRITICAL (''directory does not exist '' @ path_source) w
                           else w)
                 in if isdir w1 path_dest
                    then (Returned False,
                          logmsg CRITICAL (''directory already exists '' @ path_dest) w1)
                    else and_then (copytree w1 path_source path_dest) (\<lambda>_ w2.
                      if truthy (vault_password (config self))
                      then (case open_w w2 (path_join (path_join (mountpoint self) ''tmp'')
                                              ''vault_password'') of
                              (Raised e, w3) \<Rightarrow> (Raised e, w3)
                            | (Returned f, w3) \<Rightarrow>
                                (case environ w3 ''VAULT_PWD'' of
                                   None \<Rightarrow>
                                     (Returned True,
                                      logmsg ERROR ''Environment variable for Ansible vault not set!'' w3)
                                 | Some v \<Rightarrow> (Returned True, file_close f (file_write f v w3))))
                      else (Returned True, w2)))"

text \<open>\<^verbatim>\<open>_ansible_cleanup\<close>.\<close>

definition ansible_cleanup :: "plugin \<Rightarrow> world \<Rightarrow> unit outcome \<times> world" where
  "ansible_cleanup self w =
     and_then
       (if \<not> truthy (keep_playbooks (config self))
        then (case playbooks_path_dest (config self) of
                None \<Rightarrow> (Raised TypeError, w)
              | Some d \<Rightarrow> rmtree w d)
        else (Returned (), w))
       (\<lambda>_ w1. if truthy (vault_password (config self))
                then os_remove w1 ''/tmp/vault_password''
                else (Returned (), w1))"

text \<open>\<^verbatim>\<open>_store_package_metadata\<close>.\<close>

definition store_package_metadata :: "plugin \<Rightarrow> world \<Rightarrow> unit outcome \<times> world" where
  "store_package_metadata self w =
     and_then (ansible_cleanup self w) (\<lambda>_ w1.
       (Returned (),
        w1\<lparr>pkg_attributes :=
             Some \<lparr>md_name = pkg_arg w1,
                   md_version = get_default (appversion (config self)) [],
                   md_release = [],
                   md_extra_vars = get_default (extravars (config self)) []\<rparr>\<rparr>))"

text \<open>
  \<^verbatim>\<open>run_ansible_playbook\<close> builds the command line by string formatting. Its last argument
  is only tested for truth, so it is a \<^typ>\<open>bool\<close> here. \<open>CHR 39\<close> is the single quote.
\<close>

definition run_ansible_playbook :: "string \<Rightarrow> string \<Rightarrow> string \<Rightarrow> string \<Rightarrow> bool \<Rightarrow> string" where
  "run_ansible_playbook inventory extra_vars playbook_dir playbook vault =
     (let path = playbook_dir @ ''/'' @ playbook;
          command = ''ansible-playbook -c local -i '' @ inventory @ '' -e '' @ [CHR 39]
                      @ ''ami=True '' @ extra_vars @ [CHR 39] @ '' '' @ path
      in if vault then command @ '' --vault-password-file /tmp/vault_password''
         else command)"

text \<open>
  The order of the states in section 4.5 of the specification, \<open>Recorded\<close> before
  \<open>CleanedUp\<close>: the metadata is captured first and cleanup runs after it. This is the order
  the code is compared with; the code's own is \<open>store_package_metadata\<close>.
\<close>

definition record_metadata :: "plugin \<Rightarrow> world \<Rightarrow> world" where
  "record_metadata self w =
     w\<lparr>pkg_attributes :=
          Some \<lparr>md_name = pkg_arg w,
                md_version = get_default (appversion (config self)) [],
                md_release = [],
                md_extra_vars = get_default (extravars (config self)) []\<rparr>\<rparr>"

definition spec_recorded_then_cleaned_up :: "plugin \<Rightarrow> world \<Rightarrow> unit outcome \<times> world" where
  "spec_recorded_then_cleaned_up self w = ansible_cleanup self (record_metadata self w)"

section \<open>A concrete run\<close>

text \<open>
  The plugin's caller runs \<^verbatim>\<open>_pre_chroot_block\<close> on the host and everything after it
  inside \<^verbatim>\<open>Chroot(mountpoint)\<close>, which calls \<^verbatim>\<open>os.chroot\<close> and \<^verbatim>\<open>os.chdir('/')\<close>. \<open>chroot_at\<close>
  is the effect of entering it on the process.
\<close>

definition chroot_at :: "path \<Rightarrow> world \<Rightarrow> world" where
  "chroot_at m w = w\<lparr>proc_root := m, proc_cwd := []\<rparr>"

text \<open>
  A host with the playbooks under \<open>/artifacts/playbooks\<close> and an image mounted at \<open>/mnt\<close>, and
  a configuration that stages them to \<open>/srv/prov\<close> in the image with a vault password.
\<close>

definition scenario_fs :: "path \<rightharpoonup> node" where
  "scenario_fs = map_of
     [([], Dir),
      ([''artifacts''], Dir),
      ([''artifacts'', ''playbooks''], Dir),
      ([''artifacts'', ''playbooks'', ''site.yml''], File ''- hosts: all''),
      ([''mnt''], Dir),
      ([''mnt'', ''tmp''], Dir)]"

definition scenario_world :: world where
  "scenario_world =
     \<lparr>fs = scenario_fs, proc_root = [], proc_cwd = [],
      environ = [''VAULT_PWD'' \<mapsto> ''s3cret''], open_files = [],
      pkg_arg = ''site.yml'', pkg_inventory = None, pkg_attributes = None, logged = []\<rparr>"

definition scenario_config :: config where
  "scenario_config =
     \<lparr>extravars = None, appversion = Some ''1.0'',
      playbooks_path_source = Some ''/artifacts/playbooks'',
      playbooks_path_dest = Some ''/srv/prov'',
      vault_password = Some True, keep_playbooks = None,
      inventory_file_path = None, inventory_file = Some ''hosts'',
      inventory_file_content = Some ''127.0.0.1''\<rparr>"

definition scenario_plugin :: plugin where
  "scenario_plugin = \<lparr>config = scenario_config, mountpoint = ''/mnt''\<rparr>"

text \<open>The same plugin told to keep the playbooks.\<close>

definition keeping_plugin :: plugin where
  "keeping_plugin = scenario_plugin\<lparr>config := scenario_config\<lparr>keep_playbooks := Some True\<rparr>\<rparr>"

text \<open>The same plugin with a destination that lacks the leading slash.\<close>

definition relative_plugin :: plugin where
  "relative_plugin =
     scenario_plugin\<lparr>config := scenario_config\<lparr>playbooks_path_dest := Some ''srv/prov''\<rparr>\<rparr>"

section \<open>Facts about paths\<close>

lemma split_slash_not_Nil: "split_slash s \<noteq> []"
  by (induction s) (auto split: list.splits)

lemma split_slash_append:
  "split_slash (a @ CHR ''/'' # b) = split_slash a @ split_slash b"
proof (induction a)
  case Nil
  show ?case by simp
next
  case (Cons c a)
  obtain x xs where x: "split_slash a = x # xs"
    using split_slash_not_Nil [of a] by (cases "split_slash a") auto
  with Cons show ?case by simp
qed

lemma components_Nil: "components [] = []"
  by (simp add: components_def)

lemma components_append_slash:
  "components (a @ CHR ''/'' # b) = components a @ components b"
  by (simp add: components_def split_slash_append)

lemma components_slash_Cons: "components (CHR ''/'' # b) = components b"
  using components_append_slash [of "[]" b] by (simp add: components_Nil)

lemma components_snoc_slash: "components (a @ ''/'') = components a"
  using components_append_slash [of a "[]"] by (simp add: components_Nil)

lemma components_append_abs:
  assumes "isabs b"
  shows "components (a @ b) = components a @ components b"
proof -
  from assms obtain b' where b: "b = CHR ''/'' # b'"
    by (auto simp: isabs_def split: list.splits)
  show ?thesis
    unfolding b by (simp add: components_append_slash components_slash_Cons)
qed

lemma components_append_trailing:
  assumes "a \<noteq> []" "last a = CHR ''/''"
  shows "components (a @ b) = components a @ components b"
proof -
  from assms have a: "a = butlast a @ ''/''"
    by (metis append_butlast_last_id)
  have "components (a @ b) = components (butlast a @ CHR ''/'' # b)"
    by (subst a) simp
  also have "\<dots> = components (butlast a) @ components b"
    by (rule components_append_slash)
  also have "components (butlast a) = components a"
    by (subst (2) a) (simp add: components_snoc_slash)
  finally show ?thesis .
qed

lemma isabs_append: "a \<noteq> [] \<Longrightarrow> isabs (a @ b) = isabs a"
  by (cases a) (auto simp: isabs_def)

lemma resolve_Some_iff:
  "resolve w s = Some p \<longleftrightarrow>
     s \<noteq> [] \<and> p = proc_root w @ (if isabs s then components s else proc_cwd w @ components s)"
  by (auto simp: resolve_def)


lemma components_tmp: "components ''tmp'' = [''tmp'']"
  by (simp add: components_def)

lemma components_vault: "components ''vault_password'' = [''vault_password'']"
  by (simp add: components_def)

lemma components_tmp_vault: "components ''/tmp/vault_password'' = [''tmp'', ''vault_password'']"
  by (simp add: components_def)

lemma resolve_secret:
  assumes "resolve w mount = Some m"
  shows "resolve w (path_join (path_join mount ''tmp'') ''vault_password'')
           = Some (m @ [''tmp'', ''vault_password''])"
proof -
  from assms have ne: "mount \<noteq> []" by (auto simp: resolve_def split: if_splits)
  have j: "path_join (path_join mount ''tmp'') ''vault_password''
             = (if last mount = CHR ''/'' then mount @ ''tmp/vault_password''
                else mount @ ''/tmp/vault_password'')"
    using ne by (simp add: path_join_def isabs_def)
  have c: "components (path_join (path_join mount ''tmp'') ''vault_password'')
             = components mount @ [''tmp'', ''vault_password'']"
  proof (cases "last mount = CHR ''/''")
    case True
    have "components ''tmp/vault_password'' = [''tmp'', ''vault_password'']"
      by (simp add: components_def)
    with True ne show ?thesis
      by (simp add: j components_append_trailing)
  next
    case False
    have "isabs ''/tmp/vault_password''" by (simp add: isabs_def)
    with False show ?thesis
      by (simp add: j components_append_abs components_tmp_vault)
  qed
  have a: "isabs (path_join (path_join mount ''tmp'') ''vault_password'') = isabs mount"
    using ne by (simp add: j isabs_append)
  have n: "path_join (path_join mount ''tmp'') ''vault_password'' \<noteq> []"
    using ne by (simp add: j)
  from assms show ?thesis
    by (auto simp: resolve_def c a n split: if_splits)
qed

lemma resolve_abs:
  assumes "isabs s"
  shows "resolve w s = Some (proc_root w @ components s)"
  using assms by (auto simp: resolve_def isabs_def)

lemma resolve_in_chroot:
  assumes "proc_cwd w = []" "s \<noteq> []"
  shows "resolve w s = Some (proc_root w @ components s)"
  using assms by (simp add: resolve_def)

section \<open>Facts about the operating system calls\<close>

lemma resolve_cong:
  "proc_root w' = proc_root w \<Longrightarrow> proc_cwd w' = proc_cwd w \<Longrightarrow> resolve w' s = resolve w s"
  by (simp add: resolve_def)

lemma resolve_logmsg: "resolve (logmsg l m w) s = resolve w s"
  by (simp add: resolve_def logmsg_def)

lemma isdir_logmsg: "isdir (logmsg l m w) s = isdir w s"
  by (simp add: isdir_def resolve_logmsg split: option.splits) (simp add: logmsg_def)

lemma and_then_Returned:
  "and_then r k = (Returned y, w') \<longleftrightarrow> (\<exists>x w1. r = (Returned x, w1) \<and> k x w1 = (Returned y, w'))"
  by (auto simp: and_then_def split: prod.splits outcome.splits)

lemma and_then_Raised:
  "and_then r k = (Raised e, w') \<longleftrightarrow>
     r = (Raised e, w') \<or> (\<exists>x w1. r = (Returned x, w1) \<and> k x w1 = (Raised e, w'))"
  by (auto simp: and_then_def split: prod.splits outcome.splits)

lemma makedirs_Returned:
  "makedirs w s = (Returned u, w1) \<longleftrightarrow>
     (\<exists>p. resolve w s = Some p \<and> fs w p = None \<and> \<not> list_ex (\<lambda>q. is_file (fs w q)) (prefixes p)
        \<and> w1 = w\<lparr>fs := (\<lambda>q. if prefix q p \<and> fs w q = None then Some Dir else fs w q)\<rparr>)"
  by (auto simp: makedirs_def split: option.splits)

lemma makedirs_Raised:
  "makedirs w s = (Raised e, w1) \<Longrightarrow> e = OSError \<and> w1 = w"
  by (auto simp: makedirs_def split: option.splits if_splits)

lemma copytree_Returned:
  "copytree w src dst = (Returned u, w1) \<longleftrightarrow>
     (\<exists>ps pd. resolve w src = Some ps \<and> resolve w dst = Some pd \<and> fs w ps = Some Dir
        \<and> fs w pd = None \<and> \<not> list_ex (\<lambda>q. is_file (fs w q)) (prefixes pd)
        \<and> \<not> (strict_prefix ps pd \<and> fs w (take (Suc (length ps)) pd) = Some Dir)
        \<and> w1 = w\<lparr>fs := (\<lambda>q. if prefix pd q then fs w (ps @ drop (length pd) q)
                            else if prefix q pd \<and> fs w q = None then Some Dir else fs w q)\<rparr>)"
proof -
  have m: "makedirs w dst = (Raised OSError, w) \<or>
           (\<exists>pd. resolve w dst = Some pd \<and> fs w pd = None
              \<and> \<not> list_ex (\<lambda>q. is_file (fs w q)) (prefixes pd)
              \<and> makedirs w dst =
                    (Returned (), w\<lparr>fs := (\<lambda>q. if prefix q pd \<and> fs w q = None then Some Dir else fs w q)\<rparr>))"
    by (auto simp: makedirs_def split: option.splits)
  show ?thesis
  proof (cases "resolve w src")
    case None
    then show ?thesis by (simp add: copytree_def)
  next
    case (Some ps)
    show ?thesis
    proof (cases "fs w ps = Some Dir")
      case False
      with Some show ?thesis by (simp add: copytree_def)
    next
      case True
      from m show ?thesis
      proof
        assume r: "makedirs w dst = (Raised OSError, w)"
        then have "resolve w dst = None \<or> (\<exists>pd. resolve w dst = Some pd \<and>
                     (fs w pd \<noteq> None \<or> list_ex (\<lambda>q. is_file (fs w q)) (prefixes pd)))"
          by (auto simp: makedirs_def split: option.splits if_splits)
        with Some True r show ?thesis
          by (auto simp: copytree_def and_then_def)
      next
        assume "\<exists>pd. resolve w dst = Some pd \<and> fs w pd = None
              \<and> \<not> list_ex (\<lambda>q. is_file (fs w q)) (prefixes pd)
              \<and> makedirs w dst =
                    (Returned (), w\<lparr>fs := (\<lambda>q. if prefix q pd \<and> fs w q = None then Some Dir else fs w q)\<rparr>)"
        then obtain pd where pd: "resolve w dst = Some pd" "fs w pd = None"
            "\<not> list_ex (\<lambda>q. is_file (fs w q)) (prefixes pd)"
            "makedirs w dst =
               (Returned (), w\<lparr>fs := (\<lambda>q. if prefix q pd \<and> fs w q = None then Some Dir else fs w q)\<rparr>)"
          by blast
        with Some True show ?thesis
          by (auto simp: copytree_def and_then_def cong: if_cong)
      qed
    qed
  qed
qed

lemma rmtree_Returned:
  "rmtree w s = (Returned u, w1) \<longleftrightarrow>
     (\<exists>p. resolve w s = Some p \<and> fs w p = Some Dir \<and> p \<noteq> proc_root w
        \<and> w1 = w\<lparr>fs := (\<lambda>q. if prefix p q then None else fs w q)\<rparr>)"
  by (auto simp: rmtree_def split: option.splits)

lemma rmtree_not_dir:
  "\<not> isdir w s \<Longrightarrow> rmtree w s = (Raised OSError, w)"
  by (auto simp: rmtree_def isdir_def split: option.splits)

lemma os_remove_Returned:
  "os_remove w s = (Returned u, w1) \<longleftrightarrow>
     (\<exists>p. resolve w s = Some p \<and> is_file (fs w p) \<and> w1 = w\<lparr>fs := (fs w)(p := None)\<rparr>)"
  by (auto simp: os_remove_def split: option.splits)

lemma os_remove_Raised:
  "os_remove w s = (Raised e, w1) \<Longrightarrow> e = OSError \<and> w1 = w"
  by (auto simp: os_remove_def split: option.splits if_splits)

lemma open_w_Returned:
  "open_w w s = (Returned f, w1) \<longleftrightarrow>
     (\<exists>p. resolve w s = Some p \<and> f = p \<and> fs w p \<noteq> Some Dir \<and> fs w (butlast p) = Some Dir
        \<and> w1 = w\<lparr>fs := (fs w)(p \<mapsto> File []), open_files := p # open_files w\<rparr>)"
  by (auto simp: open_w_def split: option.splits)

lemma open_w_Raised:
  "open_w w s = (Raised e, w1) \<Longrightarrow> e = IOError \<and> w1 = w"
  by (auto simp: open_w_def split: option.splits if_splits)

section \<open>The command line\<close>

text \<open>
  C4. The command line is
  \<open>ansible-playbook -c local -i <inventory> -e 'ami=True <extra_vars>' <playbook_dir>/<playbook>\<close>,
  followed by \<open> --vault-password-file /tmp/vault_password\<close> exactly when a vault password
  is requested. With the inventory \<open>/etc/ansible/hosts\<close>, no extra variables, the directory
  \<open>/srv/prov\<close>, the playbook \<open>site.yml\<close> and no vault it is
  \<open>ansible-playbook -c local -i /etc/ansible/hosts -e 'ami=True ' /srv/prov/site.yml\<close>.
\<close>

theorem run_ansible_playbook_command:
  "run_ansible_playbook inventory extra_vars playbook_dir playbook vault =
     ''ansible-playbook -c local -i '' @ inventory @ '' -e '' @ [CHR 39] @ ''ami=True ''
       @ extra_vars @ [CHR 39] @ '' '' @ playbook_dir @ ''/'' @ playbook
       @ (if vault then '' --vault-password-file /tmp/vault_password'' else [])
   \<and> run_ansible_playbook ''/etc/ansible/hosts'' [] ''/srv/prov'' ''site.yml'' False =
       ''ansible-playbook -c local -i /etc/ansible/hosts -e '' @ [CHR 39] @ ''ami=True ''
         @ [CHR 39] @ '' /srv/prov/site.yml''"
  by (simp add: run_ansible_playbook_def)

lemmas scenario_defs =
  scenario_plugin_def scenario_config_def scenario_world_def scenario_fs_def chroot_at_def

lemmas run_defs =
  isdir_def resolve_def isabs_def components_def copytree_def makedirs_def rmtree_def
  os_remove_def open_w_def file_write_def file_close_def logmsg_def and_then_def truthy_def
  get_default_def path_join_def is_file_def prefixes_def Let_def

section \<open>Staging\<close>

text \<open>
  C3. When the destination \<open>mountpoint + playbooks_path_dest\<close> is already a directory,
  \<^verbatim>\<open>_copy_playbooks\<close> returns \<open>False\<close> and changes nothing but the log: the file system and
  the open files are as before, so neither the copy nor the secret write took place.
\<close>

theorem copy_playbooks_destination_exists:
  assumes "playbooks_path_source (config self) = Some src"
    and "playbooks_path_dest (config self) = Some d"
    and "isdir w (mountpoint self @ d)"
  shows "copy_playbooks self w =
           (Returned False,
            w\<lparr>logged := logged w
                 @ (if isdir w src then [] else [(CRITICAL, ''directory does not exist '' @ src)])
                 @ [(CRITICAL, ''directory already exists '' @ mountpoint self @ d)]\<rparr>)
         \<and> fs (snd (copy_playbooks self w)) = fs w
         \<and> open_files (snd (copy_playbooks self w)) = open_files w"
  using assms by (simp add: copy_playbooks_def isdir_logmsg Let_def) (simp add: logmsg_def)

theorem copy_playbooks_destination_exists_witness:
  "isdir (scenario_world\<lparr>fs := (fs scenario_world)([''mnt'', ''srv'', ''prov''] \<mapsto> Dir)\<rparr>) ''/mnt/srv/prov''
   \<and> fst (copy_playbooks scenario_plugin
            (scenario_world\<lparr>fs := (fs scenario_world)([''mnt'', ''srv'', ''prov''] \<mapsto> Dir)\<rparr>))
       = Returned False
   \<and> fs (snd (copy_playbooks scenario_plugin
            (scenario_world\<lparr>fs := (fs scenario_world)([''mnt'', ''srv'', ''prov''] \<mapsto> Dir)\<rparr>)))
       = (fs scenario_world)([''mnt'', ''srv'', ''prov''] \<mapsto> Dir)"
proof -
  let ?w = "scenario_world\<lparr>fs := (fs scenario_world)([''mnt'', ''srv'', ''prov''] \<mapsto> Dir)\<rparr>"
  have s: "playbooks_path_source (config scenario_plugin) = Some ''/artifacts/playbooks''"
    and d: "playbooks_path_dest (config scenario_plugin) = Some ''/srv/prov''"
    by (simp_all add: scenario_defs)
  have i: "isdir ?w (mountpoint scenario_plugin @ ''/srv/prov'')"
    by (simp add: scenario_defs run_defs)
  from copy_playbooks_destination_exists [OF s d i] i show ?thesis
    by (simp add: scenario_plugin_def)
qed

text \<open>
  C6. The claim is that a source that is not a directory makes staging return a failure
  before the copy. The code logs the missing source and goes on: when the destination is
  not there either, it calls \<^verbatim>\<open>shutil.copytree\<close>, whose exception leaves \<^verbatim>\<open>_copy_playbooks\<close>;
  nothing is returned.
\<close>

theorem copy_playbooks_source_missing:
  assumes "playbooks_path_source (config self) = Some src"
    and "playbooks_path_dest (config self) = Some d"
    and "\<not> isdir w src"
    and "\<not> isdir w (mountpoint self @ d)"
  shows "copy_playbooks self w =
           (Raised OSError, w\<lparr>logged := logged w @ [(CRITICAL, ''directory does not exist '' @ src)]\<rparr>)"
proof -
  let ?w1 = "logmsg CRITICAL (''directory does not exist '' @ src) w"
  from assms(3) have "copytree ?w1 src (mountpoint self @ d) = (Raised OSError, ?w1)"
    by (auto simp: copytree_def isdir_def resolve_logmsg split: option.splits) (simp add: logmsg_def)
  with assms show ?thesis
    by (simp add: copy_playbooks_def isdir_logmsg Let_def and_then_def) (simp add: logmsg_def)
qed

theorem copy_playbooks_source_missing_witness:
  "\<not> isdir scenario_world ''/artifacts/missing''
   \<and> copy_playbooks
        (scenario_plugin\<lparr>config := scenario_config\<lparr>playbooks_path_source := Some ''/artifacts/missing''\<rparr>\<rparr>)
        scenario_world
     = (Raised OSError,
        scenario_world\<lparr>logged := [(CRITICAL, ''directory does not exist /artifacts/missing'')]\<rparr>)"
proof -
  let ?p = "scenario_plugin\<lparr>config := scenario_config\<lparr>playbooks_path_source := Some ''/artifacts/missing''\<rparr>\<rparr>"
  have s: "playbooks_path_source (config ?p) = Some ''/artifacts/missing''"
    and d: "playbooks_path_dest (config ?p) = Some ''/srv/prov''"
    by (simp_all add: scenario_defs)
  have i: "\<not> isdir scenario_world ''/artifacts/missing''"
    and j: "\<not> isdir scenario_world (mountpoint ?p @ ''/srv/prov'')"
    by (simp_all add: scenario_defs run_defs)
  from copy_playbooks_source_missing [OF s d i j] i show ?thesis
    by (simp add: scenario_world_def)
qed

section \<open>Cleanup\<close>

lemma ansible_cleanup_Returned:
  "ansible_cleanup self w = (Returned u, w3) \<longleftrightarrow>
     (\<exists>w1. (if \<not> truthy (keep_playbooks (config self))
             then (\<exists>d. playbooks_path_dest (config self) = Some d \<and> rmtree w d = (Returned (), w1))
             else w1 = w)
        \<and> (if truthy (vault_password (config self))
             then os_remove w1 ''/tmp/vault_password'' = (Returned (), w3)
             else w3 = w1))"
  by (auto simp: ansible_cleanup_def and_then_Returned split: option.splits)

text \<open>
  C7, as amended. With \<open>keep_playbooks\<close> false, cleanup of a destination that is not a
  directory raises \<open>OSError\<close> (from \<^verbatim>\<open>shutil.rmtree\<close>) and leaves the state as it was; and
  after a cleanup that returned, a second one raises \<open>OSError\<close> and leaves the state as the
  first left it.
\<close>

theorem ansible_cleanup_not_idempotent:
  assumes "\<not> truthy (keep_playbooks (config self))"
  shows "(playbooks_path_dest (config self) = Some d \<and> \<not> isdir w d
            \<longrightarrow> ansible_cleanup self w = (Raised OSError, w))
       \<and> (ansible_cleanup self w = (Returned (), w') 
            \<longrightarrow> ansible_cleanup self w' = (Raised OSError, w'))"
proof (intro conjI impI)
  assume "playbooks_path_dest (config self) = Some d \<and> \<not> isdir w d"
  with assms show "ansible_cleanup self w = (Raised OSError, w)"
    by (simp add: ansible_cleanup_def rmtree_not_dir and_then_def)
next
  assume r: "ansible_cleanup self w = (Returned (), w')"
  with assms obtain d w1 where d: "playbooks_path_dest (config self) = Some d"
    and rm: "rmtree w d = (Returned (), w1)"
    and v: "if truthy (vault_password (config self))
            then os_remove w1 ''/tmp/vault_password'' = (Returned (), w')
            else w' = w1"
    by (auto simp: ansible_cleanup_Returned)
  from rm obtain p where p: "resolve w d = Some p"
    and w1: "w1 = w\<lparr>fs := (\<lambda>q. if prefix p q then None else fs w q)\<rparr>"
    by (auto simp: rmtree_Returned)
  from w1 have "fs w1 p = None" "proc_root w1 = proc_root w" "proc_cwd w1 = proc_cwd w"
    by simp_all
  with v have "fs w' p = None" "proc_root w' = proc_root w" "proc_cwd w' = proc_cwd w"
    by (auto simp: os_remove_Returned split: if_splits)
  with p have "\<not> isdir w' d"
    by (simp add: isdir_def resolve_cong [of w' w])
  with assms d show "ansible_cleanup self w' = (Raised OSError, w')"
    by (simp add: ansible_cleanup_def rmtree_not_dir and_then_def)
qed


lemma scenario_cleaned:
  "fst (ansible_cleanup scenario_plugin
          (chroot_at [''mnt''] (snd (copy_playbooks scenario_plugin scenario_world))))
     = Returned ()"
  by (simp add: ansible_cleanup_def copy_playbooks_def scenario_defs run_defs)

theorem ansible_cleanup_not_idempotent_witness:
  "\<not> isdir (chroot_at [''mnt''] scenario_world) ''/srv/prov''
   \<and> ansible_cleanup scenario_plugin (chroot_at [''mnt''] scenario_world)
       = (Raised OSError, chroot_at [''mnt''] scenario_world)
   \<and> fst (ansible_cleanup scenario_plugin
            (chroot_at [''mnt''] (snd (copy_playbooks scenario_plugin scenario_world))))
       = Returned ()
   \<and> fst (ansible_cleanup scenario_plugin
            (snd (ansible_cleanup scenario_plugin
               (chroot_at [''mnt''] (snd (copy_playbooks scenario_plugin scenario_world))))))
       = Raised OSError"
proof -
  let ?w = "chroot_at [''mnt''] scenario_world"
  let ?w1 = "chroot_at [''mnt''] (snd (copy_playbooks scenario_plugin scenario_world))"
  have k: "\<not> truthy (keep_playbooks (config scenario_plugin))"
    and d: "playbooks_path_dest (config scenario_plugin) = Some ''/srv/prov''"
    by (simp_all add: scenario_defs truthy_def)
  have i: "\<not> isdir ?w ''/srv/prov''"
    by (simp add: scenario_defs run_defs)
  have r: "ansible_cleanup scenario_plugin ?w1
             = (Returned (), snd (ansible_cleanup scenario_plugin ?w1))"
    using scenario_cleaned by (metis prod.collapse)
  from ansible_cleanup_not_idempotent [OF k, of "''/srv/prov''" ?w]
       ansible_cleanup_not_idempotent [OF k, of "''/srv/prov''" ?w1 "snd (ansible_cleanup scenario_plugin ?w1)"]
       d i r scenario_cleaned
  show ?thesis by simp
qed

text \<open>
  C7 as the claim states it fails: in the image of the concrete run, where nothing was
  staged, \<open>/srv/prov\<close> does not exist and cleanup with \<open>keep_playbooks\<close> false raises.
\<close>

theorem unstage_missing_counterexample:
  "\<not> truthy (keep_playbooks (config scenario_plugin))
   \<and> \<not> isdir (chroot_at [''mnt''] scenario_world) ''/srv/prov''
   \<and> fst (ansible_cleanup scenario_plugin (chroot_at [''mnt''] scenario_world)) = Raised OSError"
  by (simp add: ansible_cleanup_def scenario_defs run_defs)

section \<open>Recording the metadata\<close>

lemma rmtree_frame: "\<exists>f. snd (rmtree w s) = w\<lparr>fs := f\<rparr>"
proof (cases "resolve w s")
  case None
  then have "snd (rmtree w s) = w\<lparr>fs := fs w\<rparr>" by (simp add: rmtree_def)
  then show ?thesis by blast
next
  case (Some p)
  then show ?thesis by (auto simp: rmtree_def intro: exI [of _ "fs w"])
qed

lemma os_remove_frame: "\<exists>f. snd (os_remove w s) = w\<lparr>fs := f\<rparr>"
proof (cases "resolve w s")
  case None
  then have "snd (os_remove w s) = w\<lparr>fs := fs w\<rparr>" by (simp add: os_remove_def)
  then show ?thesis by blast
next
  case (Some p)
  then show ?thesis by (auto simp: os_remove_def intro: exI [of _ "fs w"])
qed

lemma ansible_cleanup_frame: "\<exists>f. snd (ansible_cleanup self w) = w\<lparr>fs := f\<rparr>"
proof -
  let ?r = "if \<not> truthy (keep_playbooks (config self))
            then (case playbooks_path_dest (config self) of
                    None \<Rightarrow> (Raised TypeError, w)
                  | Some d \<Rightarrow> rmtree w d)
            else (Returned (), w)"
  have 1: "\<exists>f. snd ?r = w\<lparr>fs := f\<rparr>"
    using rmtree_frame by (auto split: option.splits intro: exI [of _ "fs w"])
  then obtain f where f: "snd ?r = w\<lparr>fs := f\<rparr>" by blast
  obtain g where g: "snd (os_remove (snd ?r) ''/tmp/vault_password'') = (snd ?r)\<lparr>fs := g\<rparr>"
    using os_remove_frame by blast
  have "ansible_cleanup self w =
          and_then ?r (\<lambda>_ w1. if truthy (vault_password (config self))
                               then os_remove w1 ''/tmp/vault_password'' else (Returned (), w1))"
    by (simp add: ansible_cleanup_def)
  then have "snd (ansible_cleanup self w) = snd ?r
           \<or> snd (ansible_cleanup self w) = snd (os_remove (snd ?r) ''/tmp/vault_password'')"
    by (cases ?r; cases "fst ?r") (auto simp: and_then_def)
  with f g show ?thesis by auto
qed

lemma ansible_cleanup_pkg:
  "pkg_attributes (snd (ansible_cleanup self w)) = pkg_attributes w"
  "pkg_arg (snd (ansible_cleanup self w)) = pkg_arg w"
proof -
  obtain f where "snd (ansible_cleanup self w) = w\<lparr>fs := f\<rparr>"
    using ansible_cleanup_frame by blast
  then show "pkg_attributes (snd (ansible_cleanup self w)) = pkg_attributes w"
    "pkg_arg (snd (ansible_cleanup self w)) = pkg_arg w"
    by simp_all
qed

text \<open>
  C5, as amended. Cleanup runs first and the metadata is recorded after it has returned:
  when cleanup raises, \<^verbatim>\<open>_store_package_metadata\<close> raises the same exception in the state
  cleanup left, with \<^verbatim>\<open>context.package.attributes\<close> as it was before the call; when cleanup
  returns, the result is the state cleanup left with the record (name, version, release,
  extra_vars) stored in it.
\<close>

theorem store_package_metadata_after_cleanup:
  "(ansible_cleanup self w = (Raised e, w1)
      \<longrightarrow> store_package_metadata self w = (Raised e, w1) \<and> pkg_attributes w1 = pkg_attributes w)
   \<and> (ansible_cleanup self w = (Returned (), w1)
      \<longrightarrow> store_package_metadata self w =
            (Returned (),
             w1\<lparr>pkg_attributes :=
                  Some \<lparr>md_name = pkg_arg w,
                        md_version = get_default (appversion (config self)) [],
                        md_release = [],
                        md_extra_vars = get_default (extravars (config self)) []\<rparr>\<rparr>))"
proof -
  have pkg: "pkg_attributes (snd (ansible_cleanup self w)) = pkg_attributes w"
    "pkg_arg (snd (ansible_cleanup self w)) = pkg_arg w"
    by (simp_all add: ansible_cleanup_pkg)
  have 1: "store_package_metadata self w = (Raised e, w1) \<and> pkg_attributes w1 = pkg_attributes w"
    if r: "ansible_cleanup self w = (Raised e, w1)"
    using pkg by (simp add: store_package_metadata_def and_then_def r)
  have 2: "store_package_metadata self w =
            (Returned (),
             w1\<lparr>pkg_attributes :=
                  Some \<lparr>md_name = pkg_arg w,
                        md_version = get_default (appversion (config self)) [],
                        md_release = [],
                        md_extra_vars = get_default (extravars (config self)) []\<rparr>\<rparr>)"
    if r: "ansible_cleanup self w = (Returned (), w1)"
    using pkg by (simp add: store_package_metadata_def and_then_def r)
  from 1 2 show ?thesis by blast
qed

theorem store_package_metadata_after_cleanup_witness:
  "fst (store_package_metadata scenario_plugin
          (chroot_at [''mnt''] (snd (copy_playbooks scenario_plugin scenario_world))))
     = Returned ()
   \<and> pkg_attributes (snd (store_package_metadata scenario_plugin
          (chroot_at [''mnt''] (snd (copy_playbooks scenario_plugin scenario_world)))))
     = Some \<lparr>md_name = ''site.yml'', md_version = ''1.0'', md_release = [], md_extra_vars = []\<rparr>
   \<and> fs (snd (store_package_metadata scenario_plugin
          (chroot_at [''mnt''] (snd (copy_playbooks scenario_plugin scenario_world)))))
        [''mnt'', ''tmp'', ''vault_password'']
     = None
   \<and> store_package_metadata scenario_plugin (chroot_at [''mnt''] scenario_world)
     = (Raised OSError, chroot_at [''mnt''] scenario_world)"
proof -
  let ?w = "chroot_at [''mnt''] scenario_world"
  let ?w1 = "chroot_at [''mnt''] (snd (copy_playbooks scenario_plugin scenario_world))"
  have r: "ansible_cleanup scenario_plugin ?w1
             = (Returned (), snd (ansible_cleanup scenario_plugin ?w1))"
    using scenario_cleaned by (metis prod.collapse)
  have x: "ansible_cleanup scenario_plugin ?w = (Raised OSError, ?w)"
    by (simp add: ansible_cleanup_def scenario_defs run_defs)
  have a: "pkg_arg ?w1 = ''site.yml''"
    by (simp add: copy_playbooks_def scenario_defs run_defs)
  have v: "get_default (appversion (config scenario_plugin)) [] = ''1.0''"
    "get_default (extravars (config scenario_plugin)) [] = []"
    by (simp_all add: scenario_defs get_default_def)
  have f: "fs (snd (ansible_cleanup scenario_plugin ?w1)) [''mnt'', ''tmp'', ''vault_password''] = None"
    by (simp add: ansible_cleanup_def copy_playbooks_def scenario_defs run_defs)
  from store_package_metadata_after_cleanup
         [of scenario_plugin ?w1 _ "snd (ansible_cleanup scenario_plugin ?w1)"]
       store_package_metadata_after_cleanup [of scenario_plugin ?w OSError ?w]
       r x a v f
  show ?thesis by simp
qed

text \<open>
  C5 as the claim states it fails. In the image of the concrete run with nothing staged,
  cleanup raises: under the claimed order the record would be in place by then, and under
  the code's order there is none.
\<close>

theorem recorded_before_cleaned_up_counterexample:
  "pkg_attributes (snd (spec_recorded_then_cleaned_up scenario_plugin
                          (chroot_at [''mnt''] scenario_world)))
     = Some \<lparr>md_name = ''site.yml'', md_version = ''1.0'', md_release = [], md_extra_vars = []\<rparr>
   \<and> pkg_attributes (snd (store_package_metadata scenario_plugin
                            (chroot_at [''mnt''] scenario_world)))
     = None
   \<and> fst (store_package_metadata scenario_plugin (chroot_at [''mnt''] scenario_world))
     = Raised OSError"
  by (simp add: spec_recorded_then_cleaned_up_def record_metadata_def store_package_metadata_def
      ansible_cleanup_def scenario_defs run_defs)

section \<open>From staging to cleanup\<close>

lemma copytree_needs_dir:
  "copytree w src dst = (Returned u, wc) \<Longrightarrow> isdir w src"
  by (auto simp: copytree_Returned isdir_def)

lemma copy_playbooks_True:
  assumes "copy_playbooks self w = (Returned True, w1)"
  obtains src d wc where
    "playbooks_path_source (config self) = Some src"
    "playbooks_path_dest (config self) = Some d"
    "\<not> isdir w (mountpoint self @ d)"
    "copytree w src (mountpoint self @ d) = (Returned (), wc)"
    "if truthy (vault_password (config self))
     then (\<exists>f wo. open_w wc (path_join (path_join (mountpoint self) ''tmp'') ''vault_password'')
                     = (Returned f, wo)
              \<and> w1 = (case environ wo ''VAULT_PWD'' of
                        None \<Rightarrow> logmsg ERROR ''Environment variable for Ansible vault not set!'' wo
                      | Some v \<Rightarrow> file_close f (file_write f v wo)))
     else w1 = wc"
proof -
  from assms obtain d where d: "playbooks_path_dest (config self) = Some d"
    by (cases "playbooks_path_dest (config self)") (auto simp: copy_playbooks_def)
  from assms d obtain src where s: "playbooks_path_source (config self) = Some src"
    by (cases "playbooks_path_source (config self)") (auto simp: copy_playbooks_def)
  let ?w1 = "if \<not> isdir w src then logmsg CRITICAL (''directory does not exist '' @ src) w else w"
  let ?k = "\<lambda>(_::unit) w2.
      if truthy (vault_password (config self))
      then (case open_w w2 (path_join (path_join (mountpoint self) ''tmp'') ''vault_password'') of
              (Raised e, w3) \<Rightarrow> (Raised e, w3)
            | (Returned f, w3) \<Rightarrow>
                (case environ w3 ''VAULT_PWD'' of
                   None \<Rightarrow>
                     (Returned True,
                      logmsg ERROR ''Environment variable for Ansible vault not set!'' w3)
                 | Some v \<Rightarrow> (Returned True, file_close f (file_write f v w3))))
      else (Returned True, w2)"
  have nd: "\<not> isdir w (mountpoint self @ d)"
    using assms d s by (auto simp: copy_playbooks_def Let_def isdir_logmsg split: if_splits)
  then have e: "and_then (copytree ?w1 src (mountpoint self @ d)) ?k = (Returned True, w1)"
    using assms d s by (simp add: copy_playbooks_def Let_def isdir_logmsg split: if_splits)
  then obtain wc where c: "copytree ?w1 src (mountpoint self @ d) = (Returned (), wc)"
    and k: "?k () wc = (Returned True, w1)"
    by (auto simp: and_then_Returned)
  have sd: "isdir w src"
  proof (rule ccontr)
    assume n: "\<not> isdir w src"
    with c have "isdir (logmsg CRITICAL (''directory does not exist '' @ src) w) src"
      by (auto dest: copytree_needs_dir)
    with n show False by (simp add: isdir_logmsg)
  qed
  with c have c': "copytree w src (mountpoint self @ d) = (Returned (), wc)" by simp
  have v: "if truthy (vault_password (config self))
     then (\<exists>f wo. open_w wc (path_join (path_join (mountpoint self) ''tmp'') ''vault_password'')
                     = (Returned f, wo)
              \<and> w1 = (case environ wo ''VAULT_PWD'' of
                        None \<Rightarrow> logmsg ERROR ''Environment variable for Ansible vault not set!'' wo
                      | Some v \<Rightarrow> file_close f (file_write f v wo)))
     else w1 = wc"
    using k by (auto split: prod.splits outcome.splits option.splits if_splits)
  from nd c' v show thesis by (rule that [OF s d])
qed

lemma copytree_same_process:
  assumes "copytree w src dst = (Returned u, wc)"
  shows "proc_root wc = proc_root w" "proc_cwd wc = proc_cwd w" "environ wc = environ w"
    "open_files wc = open_files w"
  using assms by (auto simp: copytree_Returned)


lemma staged_directory:
  assumes stage: "copy_playbooks self w0 = (Returned True, w1)"
    and dest: "playbooks_path_dest (config self) = Some d"
    and pd: "resolve w0 (mountpoint self @ d) = Some pd"
  shows "fs w1 pd = Some Dir"
proof -
  let ?secret = "path_join (path_join (mountpoint self) ''tmp'') ''vault_password''"
  from stage obtain src d' wc where
    d': "playbooks_path_dest (config self) = Some d'"
    and c: "copytree w0 src (mountpoint self @ d') = (Returned (), wc)"
    and v: "if truthy (vault_password (config self))
     then (\<exists>f wo. open_w wc ?secret = (Returned f, wo)
              \<and> w1 = (case environ wo ''VAULT_PWD'' of
                        None \<Rightarrow> logmsg ERROR ''Environment variable for Ansible vault not set!'' wo
                      | Some v \<Rightarrow> file_close f (file_write f v wo)))
     else w1 = wc"
    by (rule copy_playbooks_True)
  from d' dest have [simp]: "d' = d" by simp
  from c pd have wc: "fs wc pd = Some Dir"
    by (auto simp: copytree_Returned)
  show ?thesis
  proof (cases "truthy (vault_password (config self))")
    case False
    with v wc show ?thesis by simp
  next
    case True
    with v obtain f wo where o: "open_w wc ?secret = (Returned f, wo)"
      and w1: "w1 = (case environ wo ''VAULT_PWD'' of
                        None \<Rightarrow> logmsg ERROR ''Environment variable for Ansible vault not set!'' wo
                      | Some v \<Rightarrow> file_close f (file_write f v wo))"
      by auto
    from o have f: "fs wc f \<noteq> Some Dir"
      and wo: "wo = wc\<lparr>fs := (fs wc)(f \<mapsto> File []), open_files := f # open_files wc\<rparr>"
      by (auto simp: open_w_Returned)
    from f wc have ne: "f \<noteq> pd" by auto
    with wc have "fs wo pd = Some Dir" by (simp add: wo)
    moreover have "fs wo f = Some (File [])" by (simp add: wo)
    ultimately show ?thesis
      using ne by (simp add: w1 logmsg_def file_write_def file_close_def split: option.splits)
  qed
qed

lemma os_remove_cases:
  "snd (os_remove w s) = w
   \<or> (\<exists>p. resolve w s = Some p \<and> snd (os_remove w s) = w\<lparr>fs := (fs w)(p := None)\<rparr>)"
  by (auto simp: os_remove_def split: option.splits)

lemma staged_tree:
  assumes stage: "copy_playbooks self w0 = (Returned True, w1)"
    and src: "playbooks_path_source (config self) = Some src" "resolve w0 src = Some ps"
    and dest: "playbooks_path_dest (config self) = Some d"
      "resolve w0 (mountpoint self @ d) = Some pd"
    and mount: "resolve w0 (mountpoint self) = Some m"
    and apart: "\<not> (truthy (vault_password (config self))
                  \<and> prefix pd (m @ [''tmp'', ''vault_password'']))"
  shows "fs w1 (pd @ q) = fs w0 (ps @ q)"
proof -
  let ?secret = "path_join (path_join (mountpoint self) ''tmp'') ''vault_password''"
  let ?p = "m @ [''tmp'', ''vault_password'']"
  from stage obtain src' d' wc where
    s': "playbooks_path_source (config self) = Some src'"
    and d': "playbooks_path_dest (config self) = Some d'"
    and c: "copytree w0 src' (mountpoint self @ d') = (Returned (), wc)"
    and v: "if truthy (vault_password (config self))
     then (\<exists>f wo. open_w wc ?secret = (Returned f, wo)
              \<and> w1 = (case environ wo ''VAULT_PWD'' of
                        None \<Rightarrow> logmsg ERROR ''Environment variable for Ansible vault not set!'' wo
                      | Some v \<Rightarrow> file_close f (file_write f v wo)))
     else w1 = wc"
    by (rule copy_playbooks_True)
  from s' d' src dest have [simp]: "src' = src" "d' = d" by simp_all
  from c src dest have wc: "fs wc (pd @ q) = fs w0 (ps @ q)"
    by (auto simp: copytree_Returned)
  show ?thesis
  proof (cases "truthy (vault_password (config self))")
    case False
    with v wc show ?thesis by simp
  next
    case True
    with v obtain f wo where o: "open_w wc ?secret = (Returned f, wo)"
      and w1: "w1 = (case environ wo ''VAULT_PWD'' of
                        None \<Rightarrow> logmsg ERROR ''Environment variable for Ansible vault not set!'' wo
                      | Some v \<Rightarrow> file_close f (file_write f v wo))"
      by auto
    have "resolve wc ?secret = resolve w0 ?secret"
      using copytree_same_process [OF c] by (simp add: resolve_def)
    also have "\<dots> = Some ?p"
      using mount by (rule resolve_secret)
    finally have r: "resolve wc ?secret = Some ?p" .
    from o r have f: "f = ?p"
      and wo: "wo = wc\<lparr>fs := (fs wc)(?p \<mapsto> File []), open_files := ?p # open_files wc\<rparr>"
      by (auto simp: open_w_Returned)
    from apart True have ne: "pd @ q \<noteq> ?p"
      by (metis prefixI)
    have "fs w1 (pd @ q) = fs wc (pd @ q)"
      using ne by (simp add: w1 wo f logmsg_def file_write_def file_close_def split: option.splits)
    with wc show ?thesis by simp
  qed
qed

lemma kept_by_cleanup:
  assumes keep: "truthy (keep_playbooks (config self))"
    and other: "\<not> truthy (vault_password (config self))
                \<or> x \<noteq> proc_root w2 @ [''tmp'', ''vault_password'']"
  shows "fs (snd (ansible_cleanup self w2)) x = fs w2 x"
proof (cases "truthy (vault_password (config self))")
  case False
  with keep show ?thesis by (simp add: ansible_cleanup_def and_then_def)
next
  case True
  with keep have e: "ansible_cleanup self w2 = os_remove w2 ''/tmp/vault_password''"
    by (simp add: ansible_cleanup_def and_then_def)
  have "isabs ''/tmp/vault_password''"
    by (simp add: isabs_def)
  then have r: "resolve w2 ''/tmp/vault_password''
                  = Some (proc_root w2 @ [''tmp'', ''vault_password''])"
    by (simp add: resolve_abs components_tmp_vault)
  from other True have "x \<noteq> proc_root w2 @ [''tmp'', ''vault_password'']" by simp
  with os_remove_cases [of w2 "''/tmp/vault_password''"] r show ?thesis
    by (auto simp: e)
qed





lemma relative_staged:
  "fst (copy_playbooks relative_plugin scenario_world) = Returned True"
  by (simp add: copy_playbooks_def relative_plugin_def scenario_defs run_defs)





text \<open>
  C8. With \<open>keep_playbooks\<close> true, cleanup inside the chroot at the mount point, whether it
  returns or raises, leaves the staged tree in place: when staging returned \<open>True\<close>, what ran
  in between left the staged tree alone, and the secret file is not inside the staged
  directory, the destination is still a directory after cleanup and every path below it
  holds what the same path below the source held when it was staged.
\<close>

theorem playbooks_kept_after_cleanup:
  assumes "copy_playbooks self w0 = (Returned True, w1)"
    and "truthy (keep_playbooks (config self))"
    and "playbooks_path_source (config self) = Some src" and "resolve w0 src = Some ps"
    and "playbooks_path_dest (config self) = Some d"
    and "resolve w0 (mountpoint self @ d) = Some pd"
    and "resolve w0 (mountpoint self) = Some m"
    and "proc_root w2 = m"
    and "\<forall>q. fs w2 (pd @ q) = fs w1 (pd @ q)"
    and "\<not> (truthy (vault_password (config self))
            \<and> prefix pd (m @ [''tmp'', ''vault_password'']))"
  shows "fs (snd (ansible_cleanup self w2)) pd = Some Dir
       \<and> (\<forall>q. fs (snd (ansible_cleanup self w2)) (pd @ q) = fs w0 (ps @ q))"
proof -
  have tree: "fs (snd (ansible_cleanup self w2)) (pd @ q) = fs w0 (ps @ q)" for q
  proof -
    from assms(10) have "\<not> truthy (vault_password (config self))
        \<or> pd @ q \<noteq> proc_root w2 @ [''tmp'', ''vault_password'']"
      unfolding assms(8) by (metis prefixI)
    with assms(2) have "fs (snd (ansible_cleanup self w2)) (pd @ q) = fs w2 (pd @ q)"
      by (rule kept_by_cleanup)
    also have "\<dots> = fs w1 (pd @ q)" using assms(9) by simp
    also have "\<dots> = fs w0 (ps @ q)"
      using assms(1,3,4,5,6,7,10) by (rule staged_tree)
    finally show ?thesis .
  qed
  have "fs w1 pd = Some Dir"
    using assms(1,5,6) by (rule staged_directory)
  moreover have "fs w1 pd = fs w0 ps"
    using staged_tree [OF assms(1,3,4,5,6,7,10), of "[]"] by simp
  ultimately have "fs (snd (ansible_cleanup self w2)) pd = Some Dir"
    using tree [of "[]"] by simp
  with tree show ?thesis by blast
qed

lemma keeping_staged:
  "fst (copy_playbooks keeping_plugin scenario_world) = Returned True"
  by (simp add: copy_playbooks_def keeping_plugin_def scenario_defs run_defs)

theorem playbooks_kept_after_cleanup_witness:
  "fst (copy_playbooks keeping_plugin scenario_world) = Returned True
   \<and> fst (ansible_cleanup keeping_plugin
            (chroot_at [''mnt''] (snd (copy_playbooks keeping_plugin scenario_world))))
       = Returned ()
   \<and> map (fs (snd (ansible_cleanup keeping_plugin
            (chroot_at [''mnt''] (snd (copy_playbooks keeping_plugin scenario_world))))))
         [[''mnt'', ''srv'', ''prov''], [''mnt'', ''srv'', ''prov'', ''site.yml''],
          [''mnt'', ''srv'', ''prov'', ''other.yml''], [''mnt'', ''tmp'', ''vault_password'']]
       = [Some Dir, Some (File ''- hosts: all''), None, None]"
proof -
  let ?w1 = "snd (copy_playbooks keeping_plugin scenario_world)"
  let ?w2 = "chroot_at [''mnt''] ?w1"
  let ?w3 = "snd (ansible_cleanup keeping_plugin ?w2)"
  have s: "copy_playbooks keeping_plugin scenario_world = (Returned True, ?w1)"
    using keeping_staged by (metis prod.collapse)
  have k: "truthy (keep_playbooks (config keeping_plugin))"
    and src: "playbooks_path_source (config keeping_plugin) = Some ''/artifacts/playbooks''"
    and d: "playbooks_path_dest (config keeping_plugin) = Some ''/srv/prov''"
    by (simp_all add: keeping_plugin_def scenario_defs truthy_def)
  have ps: "resolve scenario_world ''/artifacts/playbooks'' = Some [''artifacts'', ''playbooks'']"
    and pd: "resolve scenario_world (mountpoint keeping_plugin @ ''/srv/prov'')
               = Some [''mnt'', ''srv'', ''prov'']"
    and m: "resolve scenario_world (mountpoint keeping_plugin) = Some [''mnt'']"
    by (simp_all add: keeping_plugin_def scenario_defs run_defs)
  have r: "proc_root ?w2 = [''mnt'']"
    by (simp add: chroot_at_def)
  have b: "\<forall>q. fs ?w2 ([''mnt'', ''srv'', ''prov''] @ q) = fs ?w1 ([''mnt'', ''srv'', ''prov''] @ q)"
    by (simp add: chroot_at_def)
  have a: "\<not> (truthy (vault_password (config keeping_plugin))
             \<and> prefix [''mnt'', ''srv'', ''prov''] ([''mnt''] @ [''tmp'', ''vault_password'']))"
    by simp
  have c: "fst (ansible_cleanup keeping_plugin ?w2) = Returned ()"
    and f: "fs ?w3 [''mnt'', ''tmp'', ''vault_password''] = None"
    by (simp_all add: ansible_cleanup_def copy_playbooks_def keeping_plugin_def scenario_defs run_defs)
  have o: "fs scenario_world [''artifacts'', ''playbooks'', ''site.yml''] = Some (File ''- hosts: all'')"
    "fs scenario_world [''artifacts'', ''playbooks'', ''other.yml''] = None"
    by (simp_all add: scenario_defs)
  note main = playbooks_kept_after_cleanup [OF s k src ps d pd m r b a]
  from main have dir: "fs ?w3 [''mnt'', ''srv'', ''prov''] = Some Dir"
    by (rule conjunct1)
  from main have "\<forall>q. fs ?w3 ([''mnt'', ''srv'', ''prov''] @ q)
                       = fs scenario_world ([''artifacts'', ''playbooks''] @ q)"
    by (rule conjunct2)
  then have t: "fs ?w3 ([''mnt'', ''srv'', ''prov''] @ q)
                  = fs scenario_world ([''artifacts'', ''playbooks''] @ q)" for q
    by blast
  from dir
    t [of "[''site.yml'']"] t [of "[''other.yml'']"] o f c keeping_staged
  show ?thesis by simp
qed

section \<open>The secret when the variable is missing\<close>

text \<open>
  C9. With a vault password requested, a destination that did not exist, a copy that
  succeeded and no \<open>VAULT_PWD\<close> in the environment, \<^verbatim>\<open>_copy_playbooks\<close> returns \<open>True\<close>; the state
  is the one the copy left, with an empty file at \<open><mountpoint>/tmp/vault_password\<close>, that file
  among the open ones (it was opened and never closed), and one more line in the log, the
  error about the variable. (The file can be opened: \<open><mountpoint>/tmp\<close> is a directory and
  the file's path is not one.)
\<close>

theorem copy_playbooks_vault_variable_missing:
  assumes "truthy (vault_password (config self))"
    and "playbooks_path_source (config self) = Some src"
    and "playbooks_path_dest (config self) = Some d"
    and "\<not> isdir w (mountpoint self @ d)"
    and "copytree w src (mountpoint self @ d) = (Returned (), wc)"
    and "environ w ''VAULT_PWD'' = None"
    and "resolve w (mountpoint self) = Some m"
    and "fs wc (m @ [''tmp'']) = Some Dir"
    and "fs wc (m @ [''tmp'', ''vault_password'']) \<noteq> Some Dir"
  shows "copy_playbooks self w =
           (Returned True,
            wc\<lparr>fs := (fs wc)(m @ [''tmp'', ''vault_password''] \<mapsto> File []),
               open_files := (m @ [''tmp'', ''vault_password'']) # open_files wc,
               logged := logged wc @ [(ERROR, ''Environment variable for Ansible vault not set!'')]\<rparr>)"
proof -
  let ?secret = "path_join (path_join (mountpoint self) ''tmp'') ''vault_password''"
  let ?p = "m @ [''tmp'', ''vault_password'']"
  let ?wo = "wc\<lparr>fs := (fs wc)(?p \<mapsto> File []), open_files := ?p # open_files wc\<rparr>"
  have sd: "isdir w src"
    using assms(5) by (rule copytree_needs_dir)
  have "resolve wc ?secret = resolve w ?secret"
    using copytree_same_process [OF assms(5)] by (simp add: resolve_def)
  also have "\<dots> = Some ?p"
    using assms(7) by (rule resolve_secret)
  finally have r: "resolve wc ?secret = Some ?p" .
  have "butlast ?p = m @ [''tmp'']" by (simp add: butlast_append)
  with r assms(8,9) have o: "open_w wc ?secret = (Returned ?p, ?wo)"
    by (simp add: open_w_def)
  have e: "environ ?wo ''VAULT_PWD'' = None"
    using copytree_same_process [OF assms(5)] assms(6) by simp
  show ?thesis
    using assms(1-5) sd o e
    by (simp add: copy_playbooks_def Let_def and_then_def logmsg_def)
qed

theorem copy_playbooks_vault_variable_missing_witness:
  "copy_playbooks scenario_plugin (scenario_world\<lparr>environ := Map.empty\<rparr>)
     = (Returned True,
        (snd (copytree (scenario_world\<lparr>environ := Map.empty\<rparr>) ''/artifacts/playbooks'' ''/mnt/srv/prov''))
          \<lparr>fs := (fs (snd (copytree (scenario_world\<lparr>environ := Map.empty\<rparr>)
                              ''/artifacts/playbooks'' ''/mnt/srv/prov'')))
                    ([''mnt'', ''tmp'', ''vault_password''] \<mapsto> File []),
           open_files := [[''mnt'', ''tmp'', ''vault_password'']],
           logged := [(ERROR, ''Environment variable for Ansible vault not set!'')]\<rparr>)
   \<and> fs (snd (copy_playbooks scenario_plugin (scenario_world\<lparr>environ := Map.empty\<rparr>)))
        [''mnt'', ''tmp'', ''vault_password'']
     = Some (File [])"
proof -
  let ?w = "scenario_world\<lparr>environ := Map.empty\<rparr>"
  let ?wc = "snd (copytree ?w ''/artifacts/playbooks'' ''/mnt/srv/prov'')"
  have v: "truthy (vault_password (config scenario_plugin))"
    and s: "playbooks_path_source (config scenario_plugin) = Some ''/artifacts/playbooks''"
    and d: "playbooks_path_dest (config scenario_plugin) = Some ''/srv/prov''"
    by (simp_all add: scenario_defs truthy_def)
  have n: "\<not> isdir ?w (mountpoint scenario_plugin @ ''/srv/prov'')"
    by (simp add: scenario_defs run_defs)
  have "fst (copytree ?w ''/artifacts/playbooks'' ''/mnt/srv/prov'') = Returned ()"
    by (simp add: scenario_defs run_defs)
  then have c: "copytree ?w ''/artifacts/playbooks'' (mountpoint scenario_plugin @ ''/srv/prov'')
                  = (Returned (), ?wc)"
    by (simp add: scenario_plugin_def) (metis prod.collapse)
  have e: "environ ?w ''VAULT_PWD'' = None" by simp
  have m: "resolve ?w (mountpoint scenario_plugin) = Some [''mnt'']"
    by (simp add: scenario_defs run_defs)
  have t: "fs ?wc ([''mnt''] @ [''tmp'']) = Some Dir"
    and u: "fs ?wc ([''mnt''] @ [''tmp'', ''vault_password'']) \<noteq> Some Dir"
    by (simp_all add: scenario_defs run_defs)
  have l: "logged ?wc = []" and f: "open_files ?wc = []"
    by (simp_all add: scenario_defs run_defs)
  from copy_playbooks_vault_variable_missing [OF v s d n c e m t u] l f
  show ?thesis by simp
qed

section \<open>The inventory\<close>

lemma makedirs_pkg_inventory:
  "pkg_inventory (snd (makedirs w s)) = pkg_inventory w"
  by (simp add: makedirs_def split: option.splits)

lemma open_w_pkg_inventory:
  "pkg_inventory (snd (open_w w s)) = pkg_inventory w"
  by (simp add: open_w_def split: option.splits)

lemma file_write_pkg_inventory:
  "pkg_inventory (file_write f c w) = pkg_inventory w"
  by (simp add: file_write_def split: option.splits node.splits)

lemma and_then_snd_cases:
  "(\<exists>e. and_then r k = (Raised e, snd r))
   \<or> (\<exists>x. r = (Returned x, snd r) \<and> and_then r k = k x (snd r))"
  by (cases r; cases "fst r") (auto simp: and_then_def)

lemma write_local_inventory_records_path:
  assumes "inventory_file (config self) = Some name"
  shows "pkg_inventory (snd (write_local_inventory self w))
           = Some (get_default (inventory_file_path (config self)) ''/etc/ansible'' @ ''/'' @ name)"
proof -
  let ?path = "get_default (inventory_file_path (config self)) ''/etc/ansible''"
  let ?filename = "?path @ ''/'' @ name"
  let ?w1 = "w\<lparr>pkg_inventory := Some ?filename\<rparr>"
  let ?mk = "if \<not> isdir ?w1 ?path
             then and_then (makedirs (logmsg DEBUG (''creating '' @ ?path) ?w1) ?path)
                    (\<lambda>_ w2. (Returned (), logmsg DEBUG (''created '' @ ?path) w2))
             else (Returned (), ?w1)"
  let ?wr = "\<lambda>(_::unit) w3. and_then (open_w w3 ?filename) (\<lambda>f w4.
               let w5 = logmsg DEBUG (''writing '' @ ?filename) w4
               in case inventory_file_content (config self) of
                    None \<Rightarrow> (Raised TypeError, file_close f w5)
                  | Some content \<Rightarrow>
                      (Returned True,
                       file_close f
                         (logmsg DEBUG (''wrote '' @ ?filename) (file_write f content w5))))"
  have def: "write_local_inventory self w = and_then ?mk ?wr"
    by (simp only: write_local_inventory_def Let_def assms option.case)
  have mk: "pkg_inventory (snd ?mk) = Some ?filename"
  proof (cases "isdir ?w1 ?path")
    case True
    then show ?thesis by simp
  next
    case False
    let ?m = "makedirs (logmsg DEBUG (''creating '' @ ?path) ?w1) ?path"
    have "pkg_inventory (snd ?m) = Some ?filename"
      by (simp add: makedirs_pkg_inventory) (simp add: logmsg_def)
    moreover have "snd ?mk = snd ?m \<or> snd ?mk = logmsg DEBUG (''created '' @ ?path) (snd ?m)"
      using False and_then_snd_cases [of ?m "\<lambda>_ w2. (Returned (), logmsg DEBUG (''created '' @ ?path) w2)"]
      by auto
    ultimately show ?thesis by (auto simp: logmsg_def)
  qed
  have wr: "pkg_inventory (snd (?wr u w3)) = pkg_inventory w3" for u w3
  proof -
    let ?o = "open_w w3 ?filename"
    let ?k = "\<lambda>f w4.
               let w5 = logmsg DEBUG (''writing '' @ ?filename) w4
               in case inventory_file_content (config self) of
                    None \<Rightarrow> (Raised TypeError, file_close f w5)
                  | Some content \<Rightarrow>
                      (Returned True,
                       file_close f
                         (logmsg DEBUG (''wrote '' @ ?filename) (file_write f content w5)))"
    have k: "pkg_inventory (snd (?k f w4)) = pkg_inventory w4" for f w4
      by (simp add: Let_def file_close_def file_write_pkg_inventory split: option.splits)
         (simp add: logmsg_def file_write_pkg_inventory)
    have o: "pkg_inventory (snd ?o) = pkg_inventory w3"
      by (rule open_w_pkg_inventory)
    from and_then_snd_cases [of ?o ?k] show ?thesis
    proof
      assume "\<exists>e. and_then ?o ?k = (Raised e, snd ?o)"
      then have "snd (and_then ?o ?k) = snd ?o" by auto
      with o show ?thesis by simp
    next
      assume "\<exists>x. ?o = (Returned x, snd ?o) \<and> and_then ?o ?k = ?k x (snd ?o)"
      then obtain x where "and_then ?o ?k = ?k x (snd ?o)" by blast
      with o k [where f = x and ?w4.0 = "snd ?o"] show ?thesis by simp
    qed
  qed
  from and_then_snd_cases [of ?mk ?wr] show ?thesis
  proof
    assume "\<exists>e. and_then ?mk ?wr = (Raised e, snd ?mk)"
    then have "snd (and_then ?mk ?wr) = snd ?mk" by auto
    with mk def show ?thesis by simp
  next
    assume "\<exists>x. ?mk = (Returned x, snd ?mk) \<and> and_then ?mk ?wr = ?wr x (snd ?mk)"
    then obtain x where "and_then ?mk ?wr = ?wr x (snd ?mk)" by blast
    with mk def wr [where ?w3.0 = "snd ?mk"] show ?thesis by simp
  qed
qed

lemma write_local_inventory_success:
  assumes name: "inventory_file (config self) = Some name"
    and ret: "write_local_inventory self w = (Returned b, w')"
  shows "b = True
       \<and> (\<exists>pdir p content.
             resolve w (get_default (inventory_file_path (config self)) ''/etc/ansible'') = Some pdir
           \<and> resolve w (get_default (inventory_file_path (config self)) ''/etc/ansible'' @ ''/'' @ name)
                = Some p
           \<and> inventory_file_content (config self) = Some content
           \<and> fs w' = (\<lambda>q. if q = p then Some (File content)
                           else if \<not> isdir w (get_default (inventory_file_path (config self)) ''/etc/ansible'')
                                   \<and> prefix q pdir \<and> fs w q = None
                                then Some Dir
                           else fs w q)
           \<and> fs w' pdir = Some Dir
           \<and> open_files w' = open_files w)"
proof -
  let ?path = "get_default (inventory_file_path (config self)) ''/etc/ansible''"
  let ?filename = "?path @ ''/'' @ name"
  let ?w1 = "w\<lparr>pkg_inventory := Some ?filename\<rparr>"
  let ?mk = "if \<not> isdir ?w1 ?path
             then and_then (makedirs (logmsg DEBUG (''creating '' @ ?path) ?w1) ?path)
                    (\<lambda>_ w2. (Returned (), logmsg DEBUG (''created '' @ ?path) w2))
             else (Returned (), ?w1)"
  let ?k = "\<lambda>f w4.
               let w5 = logmsg DEBUG (''writing '' @ ?filename) w4
               in case inventory_file_content (config self) of
                    None \<Rightarrow> (Raised TypeError, file_close f w5)
                  | Some content \<Rightarrow>
                      (Returned True,
                       file_close f
                         (logmsg DEBUG (''wrote '' @ ?filename) (file_write f content w5)))"
  let ?wr = "\<lambda>(_::unit) w3. and_then (open_w w3 ?filename) ?k"
  have def: "write_local_inventory self w = and_then ?mk ?wr"
    by (simp only: write_local_inventory_def Let_def name option.case)
  with ret have "and_then ?mk ?wr = (Returned b, w')" by (simp only:)
  then have "\<exists>x w3. ?mk = (Returned x, w3) \<and> ?wr x w3 = (Returned b, w')"
    by (simp only: and_then_Returned)
  then obtain x w3 where mk': "?mk = (Returned x, w3)"
    and wr: "and_then (open_w w3 ?filename) ?k = (Returned b, w')"
    by blast
  have mk: "?mk = (Returned (), w3)"
    by (simp only: mk' unit_eq [of x])
  from wr have "\<exists>f w4. open_w w3 ?filename = (Returned f, w4) \<and> ?k f w4 = (Returned b, w')"
    by (simp only: and_then_Returned)
  then obtain f w4 where o: "open_w w3 ?filename = (Returned f, w4)"
    and k: "?k f w4 = (Returned b, w')"
    by blast
  from k obtain content where c: "inventory_file_content (config self) = Some content"
    and b: "b = True"
    and w': "w' = file_close f (logmsg DEBUG (''wrote '' @ ?filename)
                    (file_write f content (logmsg DEBUG (''writing '' @ ?filename) w4)))"
    by (cases "inventory_file_content (config self)") (auto simp: Let_def)
  have i1: "isdir ?w1 ?path = isdir w ?path"
    by (simp add: isdir_def resolve_def)
  have "\<exists>pdir. resolve w ?path = Some pdir
          \<and> fs w3 = (\<lambda>q. if \<not> isdir w ?path \<and> prefix q pdir \<and> fs w q = None then Some Dir
                           else fs w q)
          \<and> fs w3 pdir = Some Dir
          \<and> proc_root w3 = proc_root w \<and> proc_cwd w3 = proc_cwd w \<and> open_files w3 = open_files w"
  proof (cases "isdir w ?path")
    case True
    with mk i1 have "w3 = ?w1" by simp
    with True show ?thesis
      by (auto simp: isdir_def split: option.splits)
  next
    case False
    let ?w0 = "logmsg DEBUG (''creating '' @ ?path) ?w1"
    from False mk i1 obtain w2 where m: "makedirs ?w0 ?path = (Returned (), w2)"
      and w3: "w3 = logmsg DEBUG (''created '' @ ?path) w2"
      by (auto simp: and_then_Returned)
    have r0: "resolve ?w0 ?path = resolve w ?path"
      by (simp add: resolve_def logmsg_def)
    have f0: "fs ?w0 = fs w" "proc_root ?w0 = proc_root w" "proc_cwd ?w0 = proc_cwd w"
      "open_files ?w0 = open_files w"
      by (simp_all add: logmsg_def)
    from m have "\<exists>p. resolve ?w0 ?path = Some p \<and> fs ?w0 p = None
        \<and> \<not> list_ex (\<lambda>q. is_file (fs ?w0 q)) (prefixes p)
        \<and> w2 = ?w0\<lparr>fs := (\<lambda>q. if prefix q p \<and> fs ?w0 q = None then Some Dir else fs ?w0 q)\<rparr>"
      by (simp only: makedirs_Returned)
    then obtain pdir where pd0: "resolve ?w0 ?path = Some pdir"
      and none0: "fs ?w0 pdir = None"
      and w2: "w2 = ?w0\<lparr>fs := (\<lambda>q. if prefix q pdir \<and> fs ?w0 q = None then Some Dir else fs ?w0 q)\<rparr>"
      by blast
    from pd0 r0 have pd: "resolve w ?path = Some pdir" by simp
    from none0 f0 have none: "fs w pdir = None" by simp
    have "fs w3 = (\<lambda>q. if prefix q pdir \<and> fs w q = None then Some Dir else fs w q)"
      by (rule ext) (simp add: w3 w2 f0, simp add: logmsg_def f0)
    moreover have "proc_root w3 = proc_root w \<and> proc_cwd w3 = proc_cwd w \<and> open_files w3 = open_files w"
      by (simp add: w3 w2 logmsg_def)
    ultimately show ?thesis
      using False pd none by auto
  qed
  then obtain pdir where pd: "resolve w ?path = Some pdir"
    and fs3: "fs w3 = (\<lambda>q. if \<not> isdir w ?path \<and> prefix q pdir \<and> fs w q = None then Some Dir
                           else fs w q)"
    and dir3: "fs w3 pdir = Some Dir"
    and pr3: "proc_root w3 = proc_root w" "proc_cwd w3 = proc_cwd w"
    and of3: "open_files w3 = open_files w"
    by blast
  from o obtain p where p: "resolve w3 ?filename = Some p" and f: "f = p"
    and nd: "fs w3 p \<noteq> Some Dir"
    and w4: "w4 = w3\<lparr>fs := (fs w3)(p \<mapsto> File []), open_files := p # open_files w3\<rparr>"
    by (auto simp: open_w_Returned)
  have "resolve w3 ?filename = resolve w ?filename"
    using pr3 by (rule resolve_cong)
  with p have p': "resolve w ?filename = Some p"
    by (simp only:)
  from nd dir3 have ne: "pdir \<noteq> p" by auto
  have fs': "fs w' = (fs w3)(p \<mapsto> File content)"
    by (simp add: w' w4 f file_close_def logmsg_def file_write_def)
  have "fs w' = (\<lambda>q. if q = p then Some (File content)
                      else if \<not> isdir w ?path \<and> prefix q pdir \<and> fs w q = None then Some Dir
                      else fs w q)"
    by (rule ext) (simp add: fs' fs3)
  moreover have "fs w' pdir = Some Dir"
    using ne dir3 by (simp add: fs')
  moreover have "open_files w' = open_files w"
    by (simp add: w' w4 f file_close_def logmsg_def file_write_def of3)
  ultimately show ?thesis
    using b pd p' c by blast
qed

text \<open>
  C10. \<^verbatim>\<open>_write_local_inventory\<close> stores the inventory path (\<open>inventory_file_path\<close>, by default
  \<open>/etc/ansible\<close>, then \<open>/\<close>, then \<open>inventory_file\<close>) in \<^verbatim>\<open>context.package.inventory\<close> before it
  touches the file system: whatever the outcome, also when making the directory or opening
  the file raises, the path is recorded afterwards. When it returns, it returns \<open>True\<close>, and
  the file system is the old one with the missing directories on the way to the inventory
  directory made (if that directory was not there) and the inventory file holding
  \<open>inventory_file_content\<close>; the file is closed again.
\<close>

theorem write_local_inventory_not_atomic:
  assumes "inventory_file (config self) = Some name"
  shows "pkg_inventory (snd (write_local_inventory self w))
           = Some (get_default (inventory_file_path (config self)) ''/etc/ansible'' @ ''/'' @ name)
       \<and> (\<forall>b w'. write_local_inventory self w = (Returned b, w') \<longrightarrow>
            b = True
          \<and> (\<exists>pdir p content.
                resolve w (get_default (inventory_file_path (config self)) ''/etc/ansible'') = Some pdir
              \<and> resolve w (get_default (inventory_file_path (config self)) ''/etc/ansible'' @ ''/'' @ name)
                   = Some p
              \<and> inventory_file_content (config self) = Some content
              \<and> fs w' = (\<lambda>q. if q = p then Some (File content)
                              else if \<not> isdir w (get_default (inventory_file_path (config self)) ''/etc/ansible'')
                                      \<and> prefix q pdir \<and> fs w q = None
                                   then Some Dir
                              else fs w q)
              \<and> fs w' pdir = Some Dir
              \<and> open_files w' = open_files w))"
  using write_local_inventory_records_path [OF assms, of w]
    write_local_inventory_success [OF assms, of w]
  by blast

theorem write_local_inventory_not_atomic_witness:
  "fst (write_local_inventory scenario_plugin (chroot_at [''mnt''] scenario_world)) = Returned True
   \<and> pkg_inventory (snd (write_local_inventory scenario_plugin (chroot_at [''mnt''] scenario_world)))
       = Some ''/etc/ansible/hosts''
   \<and> map (fs (snd (write_local_inventory scenario_plugin (chroot_at [''mnt''] scenario_world))))
         [[''mnt'', ''etc''], [''mnt'', ''etc'', ''ansible''], [''mnt'', ''etc'', ''ansible'', ''hosts'']]
       = [Some Dir, Some Dir, Some (File ''127.0.0.1'')]
   \<and> fst (write_local_inventory scenario_plugin
            (chroot_at [''mnt''] (scenario_world\<lparr>fs := scenario_fs([''mnt'', ''etc''] \<mapsto> File [])\<rparr>)))
       = Raised OSError
   \<and> pkg_inventory (snd (write_local_inventory scenario_plugin
            (chroot_at [''mnt''] (scenario_world\<lparr>fs := scenario_fs([''mnt'', ''etc''] \<mapsto> File [])\<rparr>))))
       = Some ''/etc/ansible/hosts''"
proof -
  let ?w = "chroot_at [''mnt''] scenario_world"
  let ?bad = "chroot_at [''mnt''] (scenario_world\<lparr>fs := scenario_fs([''mnt'', ''etc''] \<mapsto> File [])\<rparr>)"
  have n: "inventory_file (config scenario_plugin) = Some ''hosts''"
    by (simp add: scenario_defs)
  have p: "get_default (inventory_file_path (config scenario_plugin)) ''/etc/ansible'' @ ''/'' @ ''hosts''
             = ''/etc/ansible/hosts''"
    by (simp add: scenario_defs get_default_def)
  have 1: "fst (write_local_inventory scenario_plugin ?w) = Returned True"
    by (simp add: write_local_inventory_def scenario_defs run_defs)
  have 2: "map (fs (snd (write_local_inventory scenario_plugin ?w)))
         [[''mnt'', ''etc''], [''mnt'', ''etc'', ''ansible''], [''mnt'', ''etc'', ''ansible'', ''hosts'']]
       = [Some Dir, Some Dir, Some (File ''127.0.0.1'')]"
    by (simp add: write_local_inventory_def scenario_defs run_defs)
  have 3: "fst (write_local_inventory scenario_plugin ?bad) = Raised OSError"
    by (simp add: write_local_inventory_def scenario_defs run_defs)
  from write_local_inventory_not_atomic [OF n, of ?w, THEN conjunct1]
       write_local_inventory_not_atomic [OF n, of ?bad, THEN conjunct1]
       1 2 3
  show ?thesis by (simp only: p)
qed

end
